theory Spec2Isabelle
  imports Complex_Main
begin

section \<open>ECMAScript Numbers, as far as the budget pages use them\<close>

text \<open>
  The pages hold every amount in a TypeScript \<open>number\<close>. The only operations they apply to
  one are \<open>parseFloat(value) || 0\<close> when a field is edited and \<open>income <= 0\<close> when the form
  is validated; there is no arithmetic on amounts. A Number is modelled by its value: a
  finite Number is the rational it denotes (every finite double is one; \<open>+0\<close> and \<open>-0\<close>,
  which \<open><=\<close> and truthiness do not tell apart, are both \<open>Fin 0\<close>), and the three special
  values are constructors of their own.
\<close>

datatype number = NaN | NegInf | Fin rat | PosInf

text \<open>ToBoolean on a Number: \<open>0\<close> and \<open>NaN\<close> are falsy, everything else is truthy.\<close>

fun truthy :: "number \<Rightarrow> bool" where
  "truthy NaN = False"
| "truthy (Fin q) = (q \<noteq> 0)"
| "truthy NegInf = True"
| "truthy PosInf = True"

text \<open>\<open>a || b\<close> on Numbers: the left operand when it is truthy, the right one otherwise.\<close>

definition js_or :: "number \<Rightarrow> number \<Rightarrow> number" where
  "js_or a b = (if truthy a then a else b)"

text \<open>\<open>a <= b\<close> on Numbers: false as soon as one side is \<open>NaN\<close>, the order of the
  extended line otherwise.\<close>

fun js_le :: "number \<Rightarrow> number \<Rightarrow> bool" where
  "js_le NaN b = False"
| "js_le a NaN = False"
| "js_le NegInf b = True"
| "js_le (Fin p) NegInf = False"
| "js_le (Fin p) (Fin q) = (p \<le> q)"
| "js_le (Fin p) PosInf = True"
| "js_le PosInf PosInf = True"
| "js_le PosInf b = False"

text \<open>
  The finite values of the Number type are those of IEEE 754 binary64: \<open>m * 2^e\<close> with
  \<open>|m| < 2^53\<close> and \<open>-1074 <= e <= 971\<close>. Counted in units of \<open>2^-1074\<close>, the least positive
  one, such a value is an integer whose significand fits 53 bits once the power of two in
  it, up to the exponent \<open>2045 = 971 + 1074\<close>, is taken out; \<open>gcd\<close> reads that power off.
  \<open>parseFloat\<close> returns such a value, an infinity or \<open>NaN\<close>, and nothing else.
\<close>

definition binary64_finite :: "rat \<Rightarrow> bool" where
  "binary64_finite q =
     (of_int \<lfloor>q * 2 ^ 1074\<rfloor> = q * 2 ^ 1074
      \<and> \<bar>\<lfloor>q * 2 ^ 1074\<rfloor>\<bar> < 2 ^ 53 * gcd \<lfloor>q * 2 ^ 1074\<rfloor> (2 ^ 2045))"

fun binary64 :: "number \<Rightarrow> bool" where
  "binary64 (Fin q) = binary64_finite q"
| "binary64 NaN = True"
| "binary64 NegInf = True"
| "binary64 PosInf = True"

section \<open>The budget form (component BudgetNew)\<close>

text \<open>
  \<open>interface CustomCategory { name: string; amount: number }\<close>. The objects of this
  interface are the only ones the component mutates in place
  (\<open>updated[index][field] = ...\<close>), so they live in an explicit heap and the form holds
  references to them; a reference is the position of the object in the heap, and a new
  object is allocated at its end.
\<close>

record CustomCategory =
  name :: string
  amount :: number

type_synonym ref = nat

record formData =
  income :: number
  housing :: number
  food :: number
  transport :: number
  dependents :: number
  miscellaneous :: number
  others :: number
  savings_goal :: number
  custom_categories :: "ref list"

text \<open>The dictionaries of error lists, \<open>{ [key: string]: string[] }\<close>, in insertion
  order; \<open>map_of\<close> reads a key and \<open>map fst\<close> is \<open>Object.keys\<close>.\<close>

type_synonym errors_dict = "(string \<times> string list) list"

text \<open>Both stateful pages keep the two state variables of their \<open>IonAlert\<close>.\<close>

record alert =
  showAlert :: bool
  alertMessage :: string

record BudgetNew = alert +
  heap :: "CustomCategory list"
  formData :: formData
  errors :: errors_dict

text \<open>The arguments of the \<open>useState\<close> calls of the component.\<close>

definition initialFormData :: formData where
  "initialFormData =
     \<lparr>income = Fin 0, housing = Fin 0, food = Fin 0, transport = Fin 0,
      dependents = Fin 0, miscellaneous = Fin 0, others = Fin 0, savings_goal = Fin 0,
      custom_categories = []\<rparr>"

definition initialBudgetNew :: BudgetNew where
  "initialBudgetNew =
     \<lparr>showAlert = False, alertMessage = '''', heap = [], formData = initialFormData,
      errors = []\<rparr>"

text \<open>
  \<open>validateForm\<close> builds \<open>newErrors\<close>, stores it with \<open>setErrors\<close> and returns whether it
  has no key. The translation function \<open>t(key, {defaultValue})\<close> of
  \<open>utils/translations\<close> is a parameter. The first component of the result is the
  dictionary handed to \<open>setErrors\<close>, the second the returned boolean.
\<close>

definition validateForm :: "(string \<Rightarrow> string \<Rightarrow> string) \<Rightarrow> formData \<Rightarrow> errors_dict \<times> bool" where
  "validateForm t fd =
     (let newErrors =
        (if js_le (income fd) (Fin 0)
         then [(''income'', [t ''budget_income_required''
                               ''Income is required and must be positive''])]
         else [])
      in (newErrors, length (map fst newErrors) = 0))"

subsection \<open>Editing the numeric fields\<close>

text \<open>
  The number inputs of the form are named after the numeric keys of \<open>formData\<close>, and
  \<open>handleInputChange\<close> writes under the name of the input that fired:
  \<open>{ ...prev, [name]: parseFloat(value) || 0 }\<close>. The event is given by that key and by
  \<open>parsed\<close>, the Number that the builtin \<open>parseFloat\<close> returns for the text of the
  input (\<open>NaN\<close> when the text does not start with a number).
\<close>

datatype numeric_key =
  Income | Housing | Food | Transport | Dependents | Miscellaneous | Others | Savings_goal

fun get_key :: "numeric_key \<Rightarrow> formData \<Rightarrow> number" where
  "get_key Income fd = income fd"
| "get_key Housing fd = housing fd"
| "get_key Food fd = food fd"
| "get_key Transport fd = transport fd"
| "get_key Dependents fd = dependents fd"
| "get_key Miscellaneous fd = miscellaneous fd"
| "get_key Others fd = others fd"
| "get_key Savings_goal fd = savings_goal fd"

fun set_key :: "numeric_key \<Rightarrow> number \<Rightarrow> formData \<Rightarrow> formData" where
  "set_key Income v fd = fd\<lparr>income := v\<rparr>"
| "set_key Housing v fd = fd\<lparr>housing := v\<rparr>"
| "set_key Food v fd = fd\<lparr>food := v\<rparr>"
| "set_key Transport v fd = fd\<lparr>transport := v\<rparr>"
| "set_key Dependents v fd = fd\<lparr>dependents := v\<rparr>"
| "set_key Miscellaneous v fd = fd\<lparr>miscellaneous := v\<rparr>"
| "set_key Others v fd = fd\<lparr>others := v\<rparr>"
| "set_key Savings_goal v fd = fd\<lparr>savings_goal := v\<rparr>"

definition handleInputChange :: "numeric_key \<Rightarrow> number \<Rightarrow> BudgetNew \<Rightarrow> BudgetNew" where
  "handleInputChange key parsed s =
     s\<lparr>formData := set_key key (js_or parsed (Fin 0)) (formData s)\<rparr>"

subsection \<open>Editing the custom categories\<close>

text \<open>The list that the page maps over to show the categories, \<open>formData.custom_categories\<close>
  with each reference read in the heap.\<close>

definition shown_categories :: "BudgetNew \<Rightarrow> CustomCategory list" where
  "shown_categories s = map (\<lambda>r. heap s ! r) (custom_categories (formData s))"

text \<open>\<open>[...prev.custom_categories, { name: '', amount: 0 }]\<close>: the object literal is a new
  object, and the new list ends with the reference to it.\<close>

definition addCustomCategory :: "BudgetNew \<Rightarrow> BudgetNew" where
  "addCustomCategory s =
     s\<lparr>heap := heap s @ [\<lparr>name = '''', amount = Fin 0\<rparr>],
       formData := (formData s)
         \<lparr>custom_categories := custom_categories (formData s) @ [length (heap s)]\<rparr>\<rparr>"

datatype category_field = Name | Amount

datatype js_error = TypeError | Rejected

text \<open>
  \<open>handleCustomCategoryChange\<close> copies the list of references, then assigns to a field of
  the object that \<open>updated[index]\<close> refers to: the object itself changes, for every list that
  holds a reference to it. Beyond the end of the list \<open>updated[index]\<close> is \<open>undefined\<close> and
  the assignment throws a TypeError before any state is set. As above, \<open>parsed\<close> is
  \<open>parseFloat(value)\<close>.
\<close>

definition assign_field :: "category_field \<Rightarrow> string \<Rightarrow> number \<Rightarrow> CustomCategory \<Rightarrow> CustomCategory" where
  "assign_field field val parsed c =
     (if field = Amount then c\<lparr>amount := js_or parsed (Fin 0)\<rparr> else c\<lparr>name := val\<rparr>)"

definition handleCustomCategoryChange ::
  "nat \<Rightarrow> category_field \<Rightarrow> string \<Rightarrow> number \<Rightarrow> BudgetNew \<Rightarrow> js_error + BudgetNew" where
  "handleCustomCategoryChange index field val parsed s =
     (let updated = custom_categories (formData s)
      in if index < length updated
         then Inr (s\<lparr>heap := (heap s)[updated ! index :=
                                assign_field field val parsed (heap s ! (updated ! index))],
                     formData := (formData s)\<lparr>custom_categories := updated\<rparr>\<rparr>)
         else Inl TypeError)"

text \<open>\<open>formData.custom_categories.filter((_, i) => i !== index)\<close>.\<close>

definition removeCustomCategory :: "nat \<Rightarrow> BudgetNew \<Rightarrow> BudgetNew" where
  "removeCustomCategory index s =
     (let updated = map snd (filter (\<lambda>(i, r). i \<noteq> index)
                                    (enumerate 0 (custom_categories (formData s))))
      in s\<lparr>formData := (formData s)\<lparr>custom_categories := updated\<rparr>\<rparr>)"

text \<open>
  What the operations keep true of the references of the form: each one points to an
  allocated object, and no object is referred to twice.
\<close>

definition refs_ok :: "BudgetNew \<Rightarrow> bool" where
  "refs_ok s =
     (distinct (custom_categories (formData s))
      \<and> list_all (\<lambda>r. r < length (heap s)) (custom_categories (formData s)))"

subsection \<open>Submitting the form\<close>

text \<open>
  The answer of the API wrappers \<open>postBudget\<close> and \<open>deleteBudget\<close> of \<open>utils/api\<close>: the
  pages read \<open>response.success\<close> and, after a refused creation, \<open>response.errors\<close>, which
  may be missing. The wrappers are parameters; \<open>Inl\<close> is a call that throws (a rejected
  promise), which the \<open>catch\<close> of the caller receives.
\<close>

record response =
  success :: bool
  response_errors :: "errors_dict option"

text \<open>What a handler does to the world outside the component, in the order it does it.\<close>

datatype effect = PostBudget formData | HistoryPush string

text \<open>
  \<open>handleSubmit\<close>: \<open>if (!validateForm()) return;\<close> comes first, and \<open>validateForm\<close> has
  already stored its dictionary with \<open>setErrors\<close>. The result is the new state of the
  component and the calls made.
\<close>

definition handleSubmit ::
  "(string \<Rightarrow> string \<Rightarrow> string) \<Rightarrow> (formData \<Rightarrow> js_error + response) \<Rightarrow> BudgetNew
     \<Rightarrow> BudgetNew \<times> effect list" where
  "handleSubmit t postBudget s =
     (let (newErrors, valid) = validateForm t (formData s);
          s1 = s\<lparr>errors := newErrors\<rparr>
      in if \<not> valid then (s1, [])
         else (case postBudget (formData s) of
                 Inr response \<Rightarrow>
                   if success response
                   then (s1\<lparr>alertMessage := t ''budget_created_success''
                                                ''Budget created successfully!'',
                            showAlert := True\<rparr>,
                         [PostBudget (formData s), HistoryPush ''/budget/dashboard''])
                   else (s1\<lparr>errors := (case response_errors response of
                                           Some e \<Rightarrow> e | None \<Rightarrow> [])\<rparr>,
                         [PostBudget (formData s)])
               | Inl err \<Rightarrow>
                   (s1\<lparr>alertMessage := t ''budget_create_error''
                                           ''Error creating budget. Please try again.'',
                       showAlert := True\<rparr>,
                    [PostBudget (formData s)])))"

subsection \<open>The states of the form\<close>

text \<open>
  Each handler is run on the state of the render that installed it, so the \<open>formData\<close> it
  closes over and the \<open>prev\<close> of its state update are the same state. The states the
  component goes through are the initial one and those that the handlers, and the dismissal
  of the alert, lead to.
\<close>

inductive reachable :: "(string \<Rightarrow> string \<Rightarrow> string) \<Rightarrow> BudgetNew \<Rightarrow> bool"
  for t :: "string \<Rightarrow> string \<Rightarrow> string" where
  mounted: "reachable t initialBudgetNew"
| input: "reachable t s \<Longrightarrow> reachable t (handleInputChange key parsed s)"
| added: "reachable t s \<Longrightarrow> reachable t (addCustomCategory s)"
| changed: "reachable t s \<Longrightarrow> handleCustomCategoryChange index field val parsed s = Inr s'
            \<Longrightarrow> reachable t s'"
| removed: "reachable t s \<Longrightarrow> reachable t (removeCustomCategory index s)"
| submitted: "reachable t s \<Longrightarrow> reachable t (fst (handleSubmit t postBudget s))"
| dismissed: "reachable t s \<Longrightarrow> reachable t (s\<lparr>showAlert := False\<rparr>)"

text \<open>No amount of the form is \<open>NaN\<close>: neither a numeric field nor the amount of a
  category object.\<close>

definition amounts_numeric :: "BudgetNew \<Rightarrow> bool" where
  "amounts_numeric s =
     (list_all (\<lambda>key. get_key key (formData s) \<noteq> NaN)
        [Income, Housing, Food, Transport, Dependents, Miscellaneous, Others, Savings_goal]
      \<and> list_all (\<lambda>c. amount c \<noteq> NaN) (heap s))"



section \<open>The list of stored budgets (component BudgetManage)\<close>

text \<open>
  The budgets arrive from the API as \<open>any\<close>; the pages read their \<open>id\<close> (compared with a
  \<open>budgetId: string\<close>), \<open>created_at\<close>, \<open>income\<close> and \<open>total_expenses\<close>. The creation time is
  a timestamp.
\<close>

record budget =
  budget_id :: string
  created_at :: nat
  budget_income :: number
  total_expenses :: number

record BudgetManage = alert +
  budgets :: "budget list"
  loading :: bool

definition initialBudgetManage :: BudgetManage where
  "initialBudgetManage =
     \<lparr>showAlert = False, alertMessage = '''', budgets = [], loading = True\<rparr>"

text \<open>The effect run once when the page is mounted: \<open>setBudgets(data.budgets || [])\<close>, or
  the alert when \<open>getBudgets\<close> throws.\<close>

definition fetchBudgets ::
  "(string \<Rightarrow> string \<Rightarrow> string) \<Rightarrow> js_error + budget list option \<Rightarrow> BudgetManage \<Rightarrow> BudgetManage" where
  "fetchBudgets t getBudgets s =
     (case getBudgets of
        Inr data \<Rightarrow> s\<lparr>budgets := (case data of Some bs \<Rightarrow> bs | None \<Rightarrow> []), loading := False\<rparr>
      | Inl err \<Rightarrow> s\<lparr>alertMessage := t ''budget_fetch_error'' ''Error fetching budgets'',
                     showAlert := True, loading := False\<rparr>)"

text \<open>\<open>handleDelete\<close>: the list changes only inside \<open>if (response.success)\<close>, by
  \<open>prev.filter(b => b.id !== budgetId)\<close>.\<close>

definition handleDelete ::
  "(string \<Rightarrow> string \<Rightarrow> string) \<Rightarrow> (string \<Rightarrow> js_error + response) \<Rightarrow> string \<Rightarrow> BudgetManage
     \<Rightarrow> BudgetManage" where
  "handleDelete t deleteBudget budgetId s =
     (case deleteBudget budgetId of
        Inr response \<Rightarrow>
          if success response
          then s\<lparr>budgets := filter (\<lambda>b. budget_id b \<noteq> budgetId) (budgets s),
                 alertMessage := t ''budget_deleted'' ''Budget deleted successfully!'',
                 showAlert := True\<rparr>
          else s
      | Inl err \<Rightarrow> s\<lparr>alertMessage := t ''budget_delete_error'' ''Error deleting budget'',
                     showAlert := True\<rparr>)"

section \<open>The dashboard (component BudgetDashboard)\<close>

text \<open>
  The answer of \<open>GET /budget/dashboard\<close>, again \<open>any\<close>: each of the five properties the page
  reads may be missing or null, and the page replaces a missing one by \<open>{}\<close> or \<open>[]\<close>.
\<close>

record chart_category =
  label :: string
  category_value :: number
  color :: string

record dashboard_data =
  latest_budget :: "budget option"
  categories :: "chart_category list option"
  budgets_history :: "budget list option"
  insights :: "string list option"
  tips :: "string list option"

record BudgetDashboard =
  dashboardData :: "dashboard_data option"
  loading_dashboard :: bool
  error :: string

definition initialBudgetDashboard :: BudgetDashboard where
  "initialBudgetDashboard = \<lparr>dashboardData = None, loading_dashboard = True, error = ''''\<rparr>"

definition fetchData ::
  "(string \<Rightarrow> string \<Rightarrow> string) \<Rightarrow> js_error + dashboard_data option \<Rightarrow> BudgetDashboard
     \<Rightarrow> BudgetDashboard" where
  "fetchData t getBudgetDashboard s =
     (case getBudgetDashboard of
        Inr data \<Rightarrow> s\<lparr>dashboardData := data, loading_dashboard := False\<rparr>
      | Inl err \<Rightarrow> s\<lparr>error := t ''budget_fetch_error'' ''Error fetching dashboard data'',
                     loading_dashboard := False\<rparr>)"

text \<open>
  What the page renders: the loading text, the error text, the dashboard proper (the income
  card of the latest budget, the pie chart when there are categories, the history rows) or
  the card \<open>No budget data available\<close> with its link to the form.
\<close>

datatype view =
  LoadingView
| ErrorView string
| DashboardView budget "chart_category list option" "budget list"
| NoDataView

text \<open>
  The body of the component. After the two early returns it reads properties of
  \<open>dashboardData\<close>, which throws a TypeError when that is still \<open>null\<close>. A missing latest
  budget becomes \<open>{}\<close>, whose \<open>id\<close> is \<open>undefined\<close>; the branch taken is the one of
  \<open>latestBudget.id ? ... : ...\<close>, and an id is truthy when it is not the empty string.
\<close>

definition render :: "BudgetDashboard \<Rightarrow> js_error + view" where
  "render s =
     (if loading_dashboard s then Inr LoadingView
      else if error s \<noteq> '''' then Inr (ErrorView (error s))
      else (case dashboardData s of
              None \<Rightarrow> Inl TypeError
            | Some d \<Rightarrow>
                (let latestBudget = latest_budget d;
                     cats = (case categories d of Some cs \<Rightarrow> cs | None \<Rightarrow> []);
                     rows = (case budgets_history d of Some bs \<Rightarrow> bs | None \<Rightarrow> [])
                 in (case latestBudget of
                       None \<Rightarrow> Inr NoDataView
                     | Some b \<Rightarrow>
                         if budget_id b \<noteq> ''''
                         then Inr (DashboardView b (if length cats > 0 then Some cats else None) rows)
                         else Inr NoDataView))))"

subsection \<open>The aggregation behind the dashboard\<close>

text \<open>
  Modelled from the spec: the order in which the history aggregator (section 4.4 of the
  specification) picks the latest budget, ``maximum \<open>createdAt\<close> (tie-break: maximum
  \<open>id\<close>)''. The aggregator runs behind \<open>GET /budget/dashboard\<close> and is not among the sources
  of the pages. The order of the ids is a parameter.
\<close>

definition later_than :: "(string \<Rightarrow> string \<Rightarrow> bool) \<Rightarrow> budget \<Rightarrow> budget \<Rightarrow> bool" where
  "later_than id_less a b =
     (created_at b < created_at a
      \<or> (created_at a = created_at b \<and> id_less (budget_id b) (budget_id a)))"

text \<open>Modelled from the spec: the latest of a budget and a list of further budgets.\<close>

fun latest_of :: "(string \<Rightarrow> string \<Rightarrow> bool) \<Rightarrow> budget \<Rightarrow> budget list \<Rightarrow> budget" where
  "latest_of id_less b [] = b"
| "latest_of id_less b (c # cs) = latest_of id_less (if later_than id_less c b then c else b) cs"

text \<open>
  Modelled from the spec: \<open>aggregate\<close>, given in the shape of the answer that the page
  reads. ``Empty input: summary with \<open>latestBudget = none\<close>'', with empty history, insights
  and tips (section 8). Otherwise the latest budget is as above, the history is the whole
  sequence by creation time, latest first, and breakdown, insights and tips come from the
  calculator and the insight engine, which are parameters.
\<close>

definition aggregate ::
  "(string \<Rightarrow> string \<Rightarrow> bool) \<Rightarrow> (budget \<Rightarrow> chart_category list)
     \<Rightarrow> (budget \<Rightarrow> budget list \<Rightarrow> string list \<times> string list) \<Rightarrow> budget list \<Rightarrow> dashboard_data" where
  "aggregate id_less computeMetrics generate bs =
     (case bs of
        [] \<Rightarrow>
          \<lparr>latest_budget = None, categories = Some [], budgets_history = Some [],
           insights = Some [], tips = Some []\<rparr>
      | b0 # rest \<Rightarrow>
          (let b = latest_of id_less b0 rest;
               history = rev (sort_key created_at bs)
           in \<lparr>latest_budget = Some b, categories = Some (computeMetrics b),
               budgets_history = Some history,
               insights = Some (fst (generate b history)),
               tips = Some (snd (generate b history))\<rparr>))"

section \<open>Money as the specification describes it\<close>


section \<open>Validation of the income\<close>

text \<open>
  Claim C1. Whatever the rest of the form holds, validation rejects an income of 0 and an
  income of -5, each time with an error list stored under the key \<open>income\<close>, and accepts
  an income of 0.01: it returns true and the dictionary has no entry for \<open>income\<close>. The
  Number written \<open>0.01\<close> is the double nearest to one hundredth,
  \<open>5764607523034235 / 2^59\<close>.
\<close>

theorem validateForm_income_boundary:
  "validateForm t (fd\<lparr>income := Fin 0\<rparr>) =
     ([(''income'', [t ''budget_income_required'' ''Income is required and must be positive''])], False)
   \<and> validateForm t (fd\<lparr>income := Fin (- 5)\<rparr>) =
     ([(''income'', [t ''budget_income_required'' ''Income is required and must be positive''])], False)
   \<and> validateForm t (fd\<lparr>income := Fin (5764607523034235 / 576460752303423488)\<rparr>) = ([], True)
   \<and> map_of (fst (validateForm t (fd\<lparr>income := Fin (5764607523034235 / 576460752303423488)\<rparr>))) ''income'' = None"
  by (simp add: validateForm_def)

text \<open>In general the form is refused exactly when \<open>income <= 0\<close> holds, and the dictionary
  then has the single key \<open>income\<close>.\<close>

lemma validateForm_valid_iff: "snd (validateForm t fd) \<longleftrightarrow> \<not> js_le (income fd) (Fin 0)"
  by (simp add: validateForm_def)

lemma validateForm_keys:
  "map fst (fst (validateForm t fd)) = (if js_le (income fd) (Fin 0) then [''income''] else [])"
  by (simp add: validateForm_def)

section \<open>The rules that validation applies\<close>

text \<open>
  Claim C3 asks that every violated rule of the specification shows in the dictionary of
  errors. Evaluated on a form whose income is 0 and whose housing amount is -5, validation
  reports the income alone: the dictionary has no entry for \<open>housing\<close>. With a positive
  income the negative housing amount passes.
\<close>

theorem validateForm_reports_income_only:
  "validateForm t (initialFormData\<lparr>income := Fin 0, housing := Fin (- 5)\<rparr>)
     = ([(''income'', [t ''budget_income_required'' ''Income is required and must be positive''])],
        False)
   \<and> map_of (fst (validateForm t (initialFormData\<lparr>income := Fin 0, housing := Fin (- 5)\<rparr>)))
        ''housing'' = None
   \<and> validateForm t (initialFormData\<lparr>income := Fin 1000, housing := Fin (- 5)\<rparr>) = ([], True)"
  by (simp add: validateForm_def initialFormData_def)

text \<open>
  Claim C4 asks that a custom category with an empty name or a negative amount fails
  validation. Evaluated on the form reached by entering an income of 1000, adding a
  category and typing -5 as its amount: the category has the empty name and the amount -5,
  validation accepts the form, and submitting it calls \<open>postBudget\<close> with it.
\<close>

theorem validateForm_ignores_custom_categories:
  "\<exists>s. handleCustomCategoryChange 0 Amount ''-5'' (Fin (- 5))
          (addCustomCategory (handleInputChange Income (Fin 1000) initialBudgetNew)) = Inr s
       \<and> shown_categories s = [\<lparr>name = '''', amount = Fin (- 5)\<rparr>]
       \<and> validateForm t (formData s) = ([], True)
       \<and> hd (snd (handleSubmit t postBudget s)) = PostBudget (formData s)"
  by (auto simp: handleCustomCategoryChange_def addCustomCategory_def handleInputChange_def
      initialBudgetNew_def initialFormData_def shown_categories_def assign_field_def js_or_def
      validateForm_def handleSubmit_def Let_def split: sum.splits)

text \<open>
  Claim C5 asks that an income above the upper bound is refused. Evaluated at an income of
  20000000000, twice the bound \<open>10000000000\<close> that the comment in \<open>validateForm\<close> names, and
  at \<open>Infinity\<close>, which is above any bound: validation accepts both, with no error.
\<close>

theorem validateForm_accepts_income_above_max:
  "validateForm t (fd\<lparr>income := Fin 20000000000\<rparr>) = ([], True)
   \<and> validateForm t (fd\<lparr>income := PosInf\<rparr>) = ([], True)"
  by (simp add: validateForm_def)

section \<open>Defaults of the numeric fields\<close>

text \<open>
  Claim C7. Each of the six expense fields and the savings goal (and the income, for that
  matter) is 0 as long as it has not been edited, in the initial form data and so in the
  initial state of the component, and becomes 0 again when the text of its input does not
  parse as a number, that is when \<open>parseFloat\<close> returns \<open>NaN\<close>.
\<close>

theorem numeric_fields_default_zero:
  "get_key key initialFormData = Fin 0
   \<and> get_key key (formData initialBudgetNew) = Fin 0
   \<and> get_key key (formData (handleInputChange key NaN s)) = Fin 0"
  by (cases key)
    (simp_all add: initialFormData_def initialBudgetNew_def handleInputChange_def js_or_def)

text \<open>Editing one numeric field leaves the others as they were.\<close>

lemma handleInputChange_other_key:
  "key' \<noteq> key \<Longrightarrow>
   get_key key' (formData (handleInputChange key parsed s)) = get_key key' (formData s)"
  by (cases key; cases key') (simp_all add: handleInputChange_def)

section \<open>Submission\<close>

text \<open>
  Claim C8. When validation fails, \<open>handleSubmit\<close> stores the errors and returns: it makes
  no call at all, so none to \<open>postBudget\<close>. Any form data that \<open>postBudget\<close> is called with
  is the form data of the state and has passed validation; and a form that passes
  validation is indeed posted.
\<close>

theorem invalid_form_never_posted:
  "(\<not> snd (validateForm t (formData s)) \<longrightarrow>
      handleSubmit t postBudget s = (s\<lparr>errors := fst (validateForm t (formData s))\<rparr>, []))
   \<and> (\<forall>fd. PostBudget fd \<in> set (snd (handleSubmit t postBudget s)) \<longrightarrow>
         fd = formData s \<and> snd (validateForm t fd))
   \<and> (snd (validateForm t (formData s)) \<longrightarrow>
         PostBudget (formData s) \<in> set (snd (handleSubmit t postBudget s)))"
  by (auto simp: handleSubmit_def Let_def split: prod.splits sum.splits if_splits)

text \<open>
  The initial form, whose income is 0, fails validation and is not posted, even to a
  server that would accept it; once an income of 1000 is entered the form is posted.
\<close>

theorem invalid_form_never_posted_witness:
  "\<not> snd (validateForm (\<lambda>key defaultValue. defaultValue) (formData initialBudgetNew))
   \<and> snd (handleSubmit (\<lambda>key defaultValue. defaultValue)
             (\<lambda>fd. Inr \<lparr>success = True, response_errors = None\<rparr>) initialBudgetNew) = []
   \<and> snd (handleSubmit (\<lambda>key defaultValue. defaultValue)
             (\<lambda>fd. Inr \<lparr>success = True, response_errors = None\<rparr>)
             (handleInputChange Income (Fin 1000) initialBudgetNew))
       = [PostBudget (initialFormData\<lparr>income := Fin 1000\<rparr>), HistoryPush ''/budget/dashboard'']"
proof -
  have bad: "\<not> snd (validateForm (\<lambda>key defaultValue. defaultValue) (formData initialBudgetNew))"
    by (simp add: validateForm_def initialBudgetNew_def initialFormData_def)
  from invalid_form_never_posted
         [of "\<lambda>key defaultValue. defaultValue" initialBudgetNew
             "\<lambda>fd. Inr \<lparr>success = True, response_errors = None\<rparr>"] bad
  have "snd (handleSubmit (\<lambda>key defaultValue. defaultValue)
             (\<lambda>fd. Inr \<lparr>success = True, response_errors = None\<rparr>) initialBudgetNew) = []"
    by simp
  with bad show ?thesis
    by (simp add: handleSubmit_def validateForm_def handleInputChange_def js_or_def
        initialBudgetNew_def initialFormData_def)
qed

section \<open>Deleting a stored budget\<close>

text \<open>
  Claim C9. When \<open>deleteBudget\<close> answers with success, the new list of budgets is the old
  one without the entries whose id is \<open>budgetId\<close>: the other entries stay, unchanged and in
  their order. When the answer does not report success the whole state is unchanged, and
  when the call throws the list of budgets is unchanged.
\<close>

theorem handleDelete_budgets:
  "(\<forall>r. deleteBudget budgetId = Inr r \<and> success r \<longrightarrow>
       budgets (handleDelete t deleteBudget budgetId s)
       = filter (\<lambda>b. budget_id b \<noteq> budgetId) (budgets s))
   \<and> (\<forall>r. deleteBudget budgetId = Inr r \<and> \<not> success r \<longrightarrow>
         handleDelete t deleteBudget budgetId s = s)
   \<and> (\<forall>e. deleteBudget budgetId = Inl e \<longrightarrow>
         budgets (handleDelete t deleteBudget budgetId s) = budgets s)"
  by (simp add: handleDelete_def)

text \<open>Three stored budgets, of which the second is deleted: with success, with a refusal,
  and with a call that throws.\<close>

theorem handleDelete_budgets_witness:
  "budgets (handleDelete (\<lambda>key defaultValue. defaultValue)
              (\<lambda>i. Inr \<lparr>success = True, response_errors = None\<rparr>) ''b7''
              (fetchBudgets (\<lambda>key defaultValue. defaultValue)
                 (Inr (Some [\<lparr>budget_id = ''b3'', created_at = 1, budget_income = Fin 1000,
                               total_expenses = Fin 600\<rparr>,
                             \<lparr>budget_id = ''b7'', created_at = 2, budget_income = Fin 1200,
                               total_expenses = Fin 900\<rparr>,
                             \<lparr>budget_id = ''b9'', created_at = 3, budget_income = Fin 500,
                               total_expenses = Fin 700\<rparr>]))
                 initialBudgetManage))
   = [\<lparr>budget_id = ''b3'', created_at = 1, budget_income = Fin 1000, total_expenses = Fin 600\<rparr>,
      \<lparr>budget_id = ''b9'', created_at = 3, budget_income = Fin 500, total_expenses = Fin 700\<rparr>]
   \<and> handleDelete (\<lambda>key defaultValue. defaultValue)
        (\<lambda>i. Inr \<lparr>success = False, response_errors = None\<rparr>) ''b7''
        (initialBudgetManage
           \<lparr>budgets := [\<lparr>budget_id = ''b7'', created_at = 2, budget_income = Fin 1200,
                          total_expenses = Fin 900\<rparr>],
             loading := False\<rparr>)
     = initialBudgetManage
         \<lparr>budgets := [\<lparr>budget_id = ''b7'', created_at = 2, budget_income = Fin 1200,
                        total_expenses = Fin 900\<rparr>],
           loading := False\<rparr>
   \<and> budgets (handleDelete (\<lambda>key defaultValue. defaultValue) (\<lambda>i. Inl Rejected) ''b7''
        (initialBudgetManage
           \<lparr>budgets := [\<lparr>budget_id = ''b7'', created_at = 2, budget_income = Fin 1200,
                          total_expenses = Fin 900\<rparr>],
             loading := False\<rparr>))
     = [\<lparr>budget_id = ''b7'', created_at = 2, budget_income = Fin 1200, total_expenses = Fin 900\<rparr>]"
  using handleDelete_budgets
          [of "\<lambda>i. Inr \<lparr>success = True, response_errors = None\<rparr>" "''b7''"
              "\<lambda>key defaultValue. defaultValue"]
        handleDelete_budgets
          [of "\<lambda>i. Inr \<lparr>success = False, response_errors = None\<rparr>" "''b7''"
              "\<lambda>key defaultValue. defaultValue"]
        handleDelete_budgets
          [of "\<lambda>i. Inl Rejected" "''b7''" "\<lambda>key defaultValue. defaultValue"]
  by (simp add: initialBudgetManage_def fetchBudgets_def)

section \<open>The dashboard without budgets\<close>

lemma latest_of_in_set: "latest_of id_less b bs \<in> set (b # bs)"
proof (induction bs arbitrary: b)
  case Nil
  show ?case by simp
next
  case (Cons c cs)
  show ?case
  proof (cases "later_than id_less c b")
    case True
    with Cons.IH [of c] show ?thesis by auto
  next
    case False
    with Cons.IH [of b] show ?thesis by auto
  qed
qed

lemma aggregate_latest_budget_None:
  "latest_budget (aggregate id_less computeMetrics generate bs) = None \<longleftrightarrow> bs = []"
  by (simp add: aggregate_def Let_def split: list.splits)

text \<open>
  Claim C6. The aggregation of an empty sequence of budgets has no latest budget, and the
  dashboard that has fetched it renders the card for the state without data: neither the
  error text nor a failure. The page does so for any answer that has no latest budget.
\<close>

theorem empty_history_shows_no_data:
  "latest_budget (aggregate id_less computeMetrics generate []) = None
   \<and> render (fetchData t (Inr (Some (aggregate id_less computeMetrics generate [])))
               initialBudgetDashboard) = Inr NoDataView
   \<and> (latest_budget d = None \<longrightarrow>
        render (fetchData t (Inr (Some d)) initialBudgetDashboard) = Inr NoDataView)"
  by (simp add: aggregate_def render_def fetchData_def initialBudgetDashboard_def)

text \<open>An answer in which every property is missing has no latest budget, and is rendered
  as the state without data.\<close>

theorem empty_history_shows_no_data_witness:
  "latest_budget \<lparr>latest_budget = None, categories = None, budgets_history = None,
                   insights = None, tips = None\<rparr> = None
   \<and> render (fetchData (\<lambda>key defaultValue. defaultValue)
               (Inr (Some \<lparr>latest_budget = None, categories = None, budgets_history = None,
                           insights = None, tips = None\<rparr>))
               initialBudgetDashboard) = Inr NoDataView"
  using empty_history_shows_no_data
          [of "\<lambda>a b. False" "\<lambda>b. []" "\<lambda>b h. ([], [])" "\<lambda>key defaultValue. defaultValue"
              "\<lparr>latest_budget = None, categories = None, budgets_history = None,
                insights = None, tips = None\<rparr>"]
  by simp

text \<open>Before the answer has arrived the page shows the loading text, and a failed fetch
  shows the error text when the translation is not empty.\<close>

lemma render_initial: "render initialBudgetDashboard = Inr LoadingView"
  by (simp add: render_def initialBudgetDashboard_def)

lemma render_fetch_failed:
  "t ''budget_fetch_error'' ''Error fetching dashboard data'' \<noteq> '''' \<Longrightarrow>
   render (fetchData t (Inl e) initialBudgetDashboard)
   = Inr (ErrorView (t ''budget_fetch_error'' ''Error fetching dashboard data''))"
  by (simp add: render_def fetchData_def initialBudgetDashboard_def)

section \<open>Editing the list of custom categories\<close>

text \<open>Removing by position with \<open>filter\<close> is taking what is before the position and what is
  after it.\<close>

lemma enumerate_drop_index:
  "map snd (filter (\<lambda>(i, r). i \<noteq> n + k) (enumerate n xs)) = take k xs @ drop (Suc k) xs"
proof (induction xs arbitrary: n k)
  case Nil
  then show ?case by simp
next
  case (Cons x xs)
  show ?case
  proof (cases k)
    case 0
    have "filter (\<lambda>(i, r). i \<noteq> n) (enumerate (Suc n) xs) = enumerate (Suc n) xs"
      by (rule filter_True) (auto simp: in_set_enumerate_eq)
    with 0 show ?thesis by simp
  next
    case (Suc j)
    with Cons.IH [of "Suc n" j] show ?thesis by simp
  qed
qed

subsection \<open>The references stay distinct and allocated\<close>




lemma refs_ok_addCustomCategory: "refs_ok s \<Longrightarrow> refs_ok (addCustomCategory s)"
  by (auto simp: refs_ok_def addCustomCategory_def list_all_iff)

lemma refs_ok_removeCustomCategory: "refs_ok s \<Longrightarrow> refs_ok (removeCustomCategory index s)"
proof -
  assume ok: "refs_ok s"
  let ?refs = "custom_categories (formData s)"
  have eq: "custom_categories (formData (removeCustomCategory index s))
            = take index ?refs @ drop (Suc index) ?refs"
    using enumerate_drop_index [of 0 index ?refs] by (simp add: removeCustomCategory_def)
  have sub: "set (take index ?refs @ drop (Suc index) ?refs) \<subseteq> set ?refs"
    using set_take_subset [of index ?refs] set_drop_subset [of "Suc index" ?refs] by auto
  have "distinct (take index ?refs @ drop (Suc index) ?refs)"
    using ok distinct_take [of ?refs index] distinct_drop [of ?refs "Suc index"]
      set_take_disj_set_drop_if_distinct [of ?refs index "Suc index"]
    by (simp add: refs_ok_def)
  moreover have "heap (removeCustomCategory index s) = heap s"
    by (simp add: removeCustomCategory_def)
  ultimately show ?thesis
    using ok sub unfolding refs_ok_def eq list_all_iff by auto
qed

lemma refs_ok_handleCustomCategoryChange:
  "refs_ok s \<Longrightarrow> handleCustomCategoryChange index field val parsed s = Inr s' \<Longrightarrow> refs_ok s'"
  by (auto simp: refs_ok_def handleCustomCategoryChange_def Let_def split: if_splits)

subsection \<open>What each operation does to the list shown\<close>

lemma shown_addCustomCategory:
  assumes "refs_ok s"
  shows "shown_categories (addCustomCategory s)
         = shown_categories s @ [\<lparr>name = '''', amount = Fin 0\<rparr>]"
proof -
  have "\<forall>r \<in> set (custom_categories (formData s)). r < length (heap s)"
    using assms by (simp add: refs_ok_def list_all_iff)
  then show ?thesis
    by (simp add: shown_categories_def addCustomCategory_def nth_append)
qed

lemma shown_removeCustomCategory:
  "shown_categories (removeCustomCategory index s)
   = take index (shown_categories s) @ drop (Suc index) (shown_categories s)"
  using enumerate_drop_index [of 0 index "custom_categories (formData s)"]
  by (simp add: shown_categories_def removeCustomCategory_def take_map drop_map)

text \<open>The assignment goes through the reference at the position edited. The other
  positions hold other references, since no object is referred to twice, so what they
  show is what they showed.\<close>

lemma shown_handleCustomCategoryChange:
  assumes ok: "refs_ok s" and i: "index < length (shown_categories s)"
  shows "\<exists>s'. handleCustomCategoryChange index field val parsed s = Inr s'
           \<and> shown_categories s'
             = (shown_categories s)[index := assign_field field val parsed (shown_categories s ! index)]"
proof -
  let ?refs = "custom_categories (formData s)"
  let ?r = "?refs ! index"
  let ?c = "assign_field field val parsed (heap s ! ?r)"
  from i have len: "index < length ?refs" by (simp add: shown_categories_def)
  from ok have dist: "distinct ?refs" and alloc: "\<forall>r \<in> set ?refs. r < length (heap s)"
    by (simp_all add: refs_ok_def list_all_iff)
  have "map (\<lambda>r. (heap s)[?r := ?c] ! r) ?refs = (map (\<lambda>r. heap s ! r) ?refs)[index := ?c]"
  proof (rule nth_equalityI)
    show "length (map (\<lambda>r. (heap s)[?r := ?c] ! r) ?refs)
          = length ((map (\<lambda>r. heap s ! r) ?refs)[index := ?c])" by simp
  next
    fix j assume "j < length (map (\<lambda>r. (heap s)[?r := ?c] ! r) ?refs)"
    then have j: "j < length ?refs" by simp
    show "map (\<lambda>r. (heap s)[?r := ?c] ! r) ?refs ! j
          = (map (\<lambda>r. heap s ! r) ?refs)[index := ?c] ! j"
    proof (cases "j = index")
      case True
      with len alloc show ?thesis by simp
    next
      case False
      with dist len j have "?refs ! j \<noteq> ?r" by (simp add: nth_eq_iff_index_eq)
      with False j show ?thesis by simp
    qed
  qed
  with len show ?thesis
    by (simp add: handleCustomCategoryChange_def shown_categories_def Let_def)
qed

text \<open>Past the end of the list the handler throws and sets no state.\<close>

lemma handleCustomCategoryChange_out_of_range:
  "length (shown_categories s) \<le> index \<Longrightarrow>
   handleCustomCategoryChange index field val parsed s = Inl TypeError"
  by (simp add: handleCustomCategoryChange_def shown_categories_def)

text \<open>Were one object referred to from two positions, editing one position would change
  what both show: the distinctness of the references is what the next theorem rests on.\<close>

lemma shared_object_changes_twice:
  "handleCustomCategoryChange 0 Name ''rent'' NaN
     (initialBudgetNew\<lparr>heap := [\<lparr>name = '''', amount = Fin 0\<rparr>],
                        formData := initialFormData\<lparr>custom_categories := [0, 0]\<rparr>\<rparr>) = Inr s'
   \<Longrightarrow> shown_categories s'
       = [\<lparr>name = ''rent'', amount = Fin 0\<rparr>, \<lparr>name = ''rent'', amount = Fin 0\<rparr>]"
  by (auto simp: handleCustomCategoryChange_def shown_categories_def assign_field_def
      initialBudgetNew_def initialFormData_def)

lemma get_key_addCustomCategory:
  "get_key key (formData (addCustomCategory s)) = get_key key (formData s)"
  by (cases key) (simp_all add: addCustomCategory_def)

lemma get_key_removeCustomCategory:
  "get_key key (formData (removeCustomCategory index s)) = get_key key (formData s)"
  by (cases key) (simp_all add: removeCustomCategory_def)

lemma get_key_handleCustomCategoryChange:
  "handleCustomCategoryChange index field val parsed s = Inr s'
   \<Longrightarrow> get_key key (formData s') = get_key key (formData s)"
  by (cases key) (auto simp: handleCustomCategoryChange_def Let_def split: if_splits)

text \<open>
  Claim C10. In a state whose references are distinct and allocated, as they are initially
  and after every operation: \<open>addCustomCategory\<close> shows the old list followed by one entry
  with the empty name and the amount 0; \<open>removeCustomCategory\<close> shows the old list without
  its entry at the index, the others in their order; \<open>handleCustomCategoryChange\<close> at an
  index of the list succeeds and shows the old list with the entry at the index replaced by
  itself with the one field assigned, the name to the text given, the amount to
  \<open>parseFloat(value) || 0\<close>.
\<close>

theorem custom_category_editing:
  assumes "refs_ok s"
  shows "shown_categories (addCustomCategory s)
           = shown_categories s @ [\<lparr>name = '''', amount = Fin 0\<rparr>]
       \<and> refs_ok (addCustomCategory s)
       \<and> shown_categories (removeCustomCategory index s)
           = take index (shown_categories s) @ drop (Suc index) (shown_categories s)
       \<and> refs_ok (removeCustomCategory index s)
       \<and> (index < length (shown_categories s) \<longrightarrow>
            (\<exists>s'. handleCustomCategoryChange index field val parsed s = Inr s'
                \<and> refs_ok s'
                \<and> shown_categories s'
                    = (shown_categories s)
                        [index := assign_field field val parsed (shown_categories s ! index)]))
       \<and> assign_field Name val parsed c = c\<lparr>name := val\<rparr>
       \<and> assign_field Amount val parsed c = c\<lparr>amount := js_or parsed (Fin 0)\<rparr>"
proof -
  have change: "index < length (shown_categories s) \<longrightarrow>
            (\<exists>s'. handleCustomCategoryChange index field val parsed s = Inr s'
                \<and> refs_ok s'
                \<and> shown_categories s'
                    = (shown_categories s)
                        [index := assign_field field val parsed (shown_categories s ! index)])"
  proof
    assume "index < length (shown_categories s)"
    from shown_handleCustomCategoryChange [OF assms this, of field val parsed]
    obtain s' where s': "handleCustomCategoryChange index field val parsed s = Inr s'"
      "shown_categories s'
         = (shown_categories s)
             [index := assign_field field val parsed (shown_categories s ! index)]"
      by blast
    with refs_ok_handleCustomCategoryChange [OF assms s'(1)]
    show "\<exists>s'. handleCustomCategoryChange index field val parsed s = Inr s'
                \<and> refs_ok s'
                \<and> shown_categories s'
                    = (shown_categories s)
                        [index := assign_field field val parsed (shown_categories s ! index)]"
      by blast
  qed
  show ?thesis
    using shown_addCustomCategory [OF assms] refs_ok_addCustomCategory [OF assms]
      shown_removeCustomCategory [of index s] refs_ok_removeCustomCategory [OF assms, of index]
      change
    by (simp add: assign_field_def)
qed

text \<open>From the form with two categories: a third is added, the second is removed, the
  amount of the second is set to 12.5.\<close>

theorem custom_category_editing_witness:
  "refs_ok (addCustomCategory (addCustomCategory initialBudgetNew))
   \<and> shown_categories (addCustomCategory (addCustomCategory (addCustomCategory initialBudgetNew)))
       = [\<lparr>name = '''', amount = Fin 0\<rparr>, \<lparr>name = '''', amount = Fin 0\<rparr>,
          \<lparr>name = '''', amount = Fin 0\<rparr>]
   \<and> shown_categories (removeCustomCategory 1 (addCustomCategory (addCustomCategory initialBudgetNew)))
       = [\<lparr>name = '''', amount = Fin 0\<rparr>]
   \<and> (\<exists>s'. handleCustomCategoryChange 1 Amount ''12.5'' (Fin (25 / 2))
               (addCustomCategory (addCustomCategory initialBudgetNew)) = Inr s'
          \<and> shown_categories s'
              = [\<lparr>name = '''', amount = Fin 0\<rparr>, \<lparr>name = '''', amount = Fin (25 / 2)\<rparr>])"
proof -
  have ok: "refs_ok (addCustomCategory (addCustomCategory initialBudgetNew))"
    by (simp add: refs_ok_def addCustomCategory_def initialBudgetNew_def initialFormData_def)
  have shown: "shown_categories (addCustomCategory (addCustomCategory initialBudgetNew))
               = [\<lparr>name = '''', amount = Fin 0\<rparr>, \<lparr>name = '''', amount = Fin 0\<rparr>]"
    by (simp add: shown_categories_def addCustomCategory_def initialBudgetNew_def
        initialFormData_def)
  from custom_category_editing [OF ok, of 1 Amount "''12.5''" "Fin (25 / 2)"] ok shown
  show ?thesis by (auto simp add: js_or_def assign_field_def)
qed

section \<open>What holds in every state of the form\<close>

text \<open>\<open>parseFloat(value) || 0\<close> is never \<open>NaN\<close>, so no handler stores one.\<close>

lemma js_or_not_NaN: "js_or parsed (Fin 0) \<noteq> NaN"
  by (cases parsed) (simp_all add: js_or_def)

lemma amounts_numeric_initial: "amounts_numeric initialBudgetNew"
  by (simp add: amounts_numeric_def initialBudgetNew_def initialFormData_def)

lemma amounts_numeric_handleInputChange:
  "amounts_numeric s \<Longrightarrow> amounts_numeric (handleInputChange key parsed s)"
  by (cases key) (simp_all add: amounts_numeric_def handleInputChange_def js_or_not_NaN)

lemma amounts_numeric_addCustomCategory:
  "amounts_numeric s \<Longrightarrow> amounts_numeric (addCustomCategory s)"
  by (simp add: amounts_numeric_def addCustomCategory_def)

lemma amounts_numeric_removeCustomCategory:
  "amounts_numeric s \<Longrightarrow> amounts_numeric (removeCustomCategory index s)"
  by (simp add: amounts_numeric_def removeCustomCategory_def)

lemma amount_assign_field_not_NaN:
  "amount c \<noteq> NaN \<Longrightarrow> amount (assign_field field val parsed c) \<noteq> NaN"
  by (simp add: assign_field_def js_or_not_NaN)

lemma amounts_numeric_handleCustomCategoryChange:
  assumes "amounts_numeric s" and "handleCustomCategoryChange index field val parsed s = Inr s'"
  shows "amounts_numeric s'"
proof -
  let ?r = "custom_categories (formData s) ! index"
  let ?c = "assign_field field val parsed (heap s ! ?r)"
  from assms(2) have heap': "heap s' = (heap s)[?r := ?c]" and form': "formData s' = formData s"
    by (auto simp: handleCustomCategoryChange_def Let_def split: if_splits)
  from assms(1) have all: "\<forall>c \<in> set (heap s). amount c \<noteq> NaN"
    by (simp add: amounts_numeric_def list_all_iff)
  have "\<forall>c \<in> set ((heap s)[?r := ?c]). amount c \<noteq> NaN"
  proof (cases "?r < length (heap s)")
    case True
    then have "heap s ! ?r \<in> set (heap s)" by simp
    with all have "amount ?c \<noteq> NaN" by (simp add: amount_assign_field_not_NaN)
    with all set_update_subset_insert [of "heap s" ?r ?c] show ?thesis by blast
  next
    case False
    then have "(heap s)[?r := ?c] = heap s" by (simp add: list_update_beyond)
    with all show ?thesis by simp
  qed
  with assms(1) show ?thesis
    by (simp add: amounts_numeric_def list_all_iff heap' form')
qed

lemma amounts_numeric_handleSubmit:
  "amounts_numeric (fst (handleSubmit t postBudget s)) = amounts_numeric s"
  by (simp add: amounts_numeric_def handleSubmit_def Let_def split: prod.splits sum.splits)


lemma reachable_amounts_numeric: "reachable t s \<Longrightarrow> amounts_numeric s"
proof (induction rule: reachable.induct)
  case mounted
  show ?case by (rule amounts_numeric_initial)
next
  case (input s key parsed)
  then show ?case by (simp add: amounts_numeric_handleInputChange)
next
  case (added s)
  then show ?case by (simp add: amounts_numeric_addCustomCategory)
next
  case (changed s index field val parsed s')
  then show ?case by (blast intro: amounts_numeric_handleCustomCategoryChange)
next
  case (removed s index)
  then show ?case by (simp add: amounts_numeric_removeCustomCategory)
next
  case (submitted s postBudget)
  then show ?case by (simp add: amounts_numeric_handleSubmit)
next
  case (dismissed s)
  then show ?case by (simp add: amounts_numeric_def)
qed

lemma reachable_income_not_NaN: "reachable t s \<Longrightarrow> income (formData s) \<noteq> NaN"
  using reachable_amounts_numeric [of t s] by (simp add: amounts_numeric_def)

section \<open>The representation of amounts\<close>

subsection \<open>The values of the Number type\<close>









lemma third_not_scaled_int: "(1 / 3 :: rat) * 2 ^ a \<noteq> of_int n"
proof
  assume "(1 / 3 :: rat) * 2 ^ a = of_int n"
  then have "(2::rat) ^ a = of_int (3 * n)" by simp
  then have "(of_int ((2::int) ^ a) :: rat) = of_int (3 * n)" by simp
  then have "(2::int) ^ a = 3 * n" by (simp only: of_int_eq_iff)
  then have "(3::int) dvd 2 ^ a" by simp
  moreover have "coprime (3::int) (2 ^ a)"
    by (simp add: coprime_power_right_iff coprime_right_2_iff_odd)
  ultimately have "is_unit (3::int)"
    using coprime_common_divisor [of "3::int" "2 ^ a" 3] by simp
  then show False by simp
qed

lemma third_not_binary64: "\<not> binary64 (Fin (1 / 3))"
proof
  assume "binary64 (Fin (1 / 3))"
  then have "of_int \<lfloor>(1 / 3 :: rat) * 2 ^ 1074\<rfloor> = (1 / 3 :: rat) * 2 ^ 1074"
    by (simp only: binary64.simps binary64_finite_def)
  with third_not_scaled_int [of 1074 "\<lfloor>(1 / 3 :: rat) * 2 ^ 1074\<rfloor>"] show False
    by (simp only:)
qed

subsection \<open>Every amount of the form is a Number\<close>














end
